theory Spec2Isabelle
  imports Main
begin

section \<open>Python values\<close>

text \<open>
  A Python \<^verbatim>\<open>str\<close> is a sequence of Unicode code points, and \<^verbatim>\<open>len\<close> counts code
  points. Strings of rule text are therefore lists of code points; \<open>py\<close> turns an ASCII
  literal into such a string. Dictionary keys and keyword names, which are fixed
  identifiers of the source, stay HOL strings.
\<close>

type_synonym pystr = "nat list"

definition py :: "string \<Rightarrow> pystr" where
  "py s = map of_char s"

text \<open>The values a configuration key or a keyword argument may hold.\<close>

datatype kwval = VNone | VBool bool | VStr pystr | VStrs "pystr list"

text \<open>Python truthiness: \<^verbatim>\<open>if val\<close>, \<^verbatim>\<open>not val\<close>.\<close>

fun truthy :: "kwval \<Rightarrow> bool" where
  "truthy VNone = False"
| "truthy (VBool b) = b"
| "truthy (VStr s) = (s \<noteq> [])"
| "truthy (VStrs l) = (l \<noteq> [])"

text \<open>
  The exceptions the modelled code raises. \<open>RegexError\<close> is \<^verbatim>\<open>re.error\<close>, \<open>CsvError\<close> is
  \<^verbatim>\<open>csv.Error\<close>, and \<open>Exception\<close> is the plain \<^verbatim>\<open>Exception\<close> raised with a message
  (malformed regex, path is not a directory).
\<close>

datatype error =
    MalformedLookup
  | MappingMissing kwval kwval
  | MalformedMapping
  | IncorrectFileType
  | TypeError
  | KeyError
  | IndexError
  | ValueError
  | FileNotFoundError
  | UnboundLocalError
  | UnicodeEncodeError
  | RegexError
  | CsvError
  | Exception

text \<open>
  Modelled from the spec: the error kinds are declared in \<^verbatim>\<open>g2p/exceptions.py\<close>, which is
  not among the sources. The specification has each kind carry ``enough context
  (offending path, language pair, pattern text) to build a message'', and
  \<^verbatim>\<open>load_abbreviations_from_file\<close> constructs \<^verbatim>\<open>IncorrectFileType\<close> with that message.
  The class requires its message: constructed with no argument, which is what
  \<^verbatim>\<open>raise exceptions.IncorrectFileType\<close> does with the bare class, the construction
  itself raises \<^verbatim>\<open>TypeError\<close>. The argument is the message, or \<open>None\<close> when there is none.
\<close>

definition IncorrectFileType_init :: "pystr option \<Rightarrow> error" where
  "IncorrectFileType_init msg = (case msg of None \<Rightarrow> TypeError | Some m \<Rightarrow> IncorrectFileType)"

text \<open>An insertion-ordered dictionary with string keys; \<^verbatim>\<open>d.get(k, default)\<close>.\<close>

type_synonym 'v dict = "(string \<times> 'v) list"

definition dict_get :: "'v dict \<Rightarrow> string \<Rightarrow> 'v \<Rightarrow> 'v" where
  "dict_get d k dflt = (case map_of d k of None \<Rightarrow> dflt | Some v \<Rightarrow> v)"

section \<open>Rules, configurations and the Mapping object\<close>

text \<open>
  \<open>match_pattern\<close> holds what \<^verbatim>\<open>rule_to_regex\<close> returned: \<^verbatim>\<open>False\<close>, or a compiled
  pattern, which is known by its pattern text and its ignore-case flag.
\<close>

datatype pattern = PFalse | Pattern pystr bool

text \<open>
  A validated rule dictionary. The four text keys are always present; the keys
  \<^verbatim>\<open>intermediate_form\<close> and \<^verbatim>\<open>match_pattern\<close> are absent (\<open>None\<close>) until the pipeline
  sets them. The keys \<^verbatim>\<open>in\<close> and \<^verbatim>\<open>out\<close> are \<open>rule_in\<close> and \<open>rule_out\<close>.
\<close>

record rule =
  rule_in :: pystr
  rule_out :: pystr
  context_before :: pystr
  context_after :: pystr
  intermediate_form :: "pystr option"
  match_pattern :: "pattern option"

text \<open>An abbreviation table: token to expansions, in insertion order.\<close>

type_synonym abbs = "(pystr \<times> pystr list) list"

text \<open>
  A loaded configuration (an entry of \<^verbatim>\<open>MAPPINGS_AVAILABLE\<close>, or what
  \<^verbatim>\<open>load_mapping_from_path\<close> returns): its scalar keys in document order, and the
  keys \<^verbatim>\<open>mapping_data\<close> and \<^verbatim>\<open>abbreviations_data\<close> when present.
\<close>

record config =
  config_items :: "kwval dict"
  mapping_data :: "rule list option"
  abbreviations_data :: "abbs option"

text \<open>
  Configuration objects live in a store. The objects of the catalog
  \<^verbatim>\<open>MAPPINGS_AVAILABLE\<close> are one region, in catalog order; the objects this code
  creates are the other. A configuration object is taken together with the rule
  list and rule dictionaries it owns.
\<close>

record store =
  catalog :: "config list"
  allocated :: "config list"

datatype ref = CatalogEntry nat | Allocated nat



text \<open>\<^verbatim>\<open>copy.deepcopy\<close>: a new object with the same content, sharing nothing.\<close>

definition deepcopy :: "store \<Rightarrow> config \<Rightarrow> store \<times> ref" where
  "deepcopy st c = (st\<lparr>allocated := allocated st @ [c]\<rparr>, Allocated (length (allocated st)))"

text \<open>The fields of a \<^verbatim>\<open>Mapping\<close> instance.\<close>

record mapping_obj =
  self_mapping :: "rule list"
  self_kwargs :: "kwval dict"
  self_abbreviations :: abbs
  self_processed :: bool

section \<open>Registry lookup\<close>

text \<open>
  \<^verbatim>\<open>find_mapping\<close>: the loop over \<^verbatim>\<open>MAPPINGS_AVAILABLE\<close>, returning a deep copy of
  the first entry whose languages match, and raising \<^verbatim>\<open>MappingMissing\<close> after the loop.
\<close>

fun find_mapping_loop :: "store \<Rightarrow> config list \<Rightarrow> kwval \<Rightarrow> kwval \<Rightarrow> store \<times> (error + ref)" where
  "find_mapping_loop st [] in_lang out_lang = (st, Inl (MappingMissing in_lang out_lang))"
| "find_mapping_loop st (m # ms) in_lang out_lang =
     (let map_in_lang = dict_get (config_items m) ''in_lang'' (VStr []);
          map_out_lang = dict_get (config_items m) ''out_lang'' (VStr [])
      in if map_in_lang = in_lang \<and> map_out_lang = out_lang
         then (case deepcopy st m of (st', r) \<Rightarrow> (st', Inr r))
         else find_mapping_loop st ms in_lang out_lang)"

definition find_mapping :: "store \<Rightarrow> kwval \<Rightarrow> kwval \<Rightarrow> store \<times> (error + ref)" where
  "find_mapping st in_lang out_lang = find_mapping_loop st (catalog st) in_lang out_lang"

text \<open>
  \<^verbatim>\<open>find_mapping_by_id\<close>: the same loop on the key \<^verbatim>\<open>id\<close>; the function ends after the
  loop without a \<^verbatim>\<open>return\<close>, so its value is then \<^verbatim>\<open>None\<close>.
\<close>

fun find_mapping_by_id_loop :: "store \<Rightarrow> config list \<Rightarrow> kwval \<Rightarrow> store \<times> ref option" where
  "find_mapping_by_id_loop st [] map_id = (st, None)"
| "find_mapping_by_id_loop st (m # ms) map_id =
     (if dict_get (config_items m) ''id'' (VStr []) = map_id
      then (case deepcopy st m of (st', r) \<Rightarrow> (st', Some r))
      else find_mapping_by_id_loop st ms map_id)"

definition find_mapping_by_id :: "store \<Rightarrow> kwval \<Rightarrow> store \<times> ref option" where
  "find_mapping_by_id st map_id = find_mapping_by_id_loop st (catalog st) map_id"

section \<open>Indexed read access\<close>



text \<open>Python's \<^verbatim>\<open>xs[i]\<close> with an integer index.\<close>

definition py_index :: "'a list \<Rightarrow> int \<Rightarrow> error + 'a" where
  "py_index xs i =
     (let n = int (length xs); j = (if i < 0 then i + n else i)
      in if 0 \<le> j \<and> j < n then Inr (xs ! nat j) else Inl IndexError)"


datatype item = IntItem int | SliceItem "int option" "int option" | OtherItem



section \<open>List and string operations of Python\<close>

text \<open>\<^verbatim>\<open>s.split(sep)\<close> for a one-character separator: never an empty result.\<close>

fun split_on :: "nat \<Rightarrow> pystr \<Rightarrow> pystr list" where
  "split_on sep [] = [[]]"
| "split_on sep (c # cs) =
     (if c = sep then [] # split_on sep cs
      else (case split_on sep cs of [] \<Rightarrow> [[c]] | w # ws \<Rightarrow> (c # w) # ws))"

text \<open>\<^verbatim>\<open>sep.join(items)\<close>.\<close>

fun join :: "pystr \<Rightarrow> pystr list \<Rightarrow> pystr" where
  "join sep [] = []"
| "join sep [x] = x"
| "join sep (x # y # ys) = x @ sep @ join sep (y # ys)"

text \<open>
  \<^verbatim>\<open>sorted(xs, key=k, reverse=True)\<close>: descending in the key, and stable (elements
  with equal keys keep their order), which is what the stable \<open>sort_key\<close> gives on the
  negated key.
\<close>

definition sorted_reverse :: "('a \<Rightarrow> nat) \<Rightarrow> 'a list \<Rightarrow> 'a list" where
  "sorted_reverse k xs = sort_key (\<lambda>x. - int (k x)) xs"

text \<open>\<^verbatim>\<open>xs.index(x)\<close>: the position of the first element equal to \<open>x\<close>.\<close>

fun list_index :: "'a list \<Rightarrow> 'a \<Rightarrow> error + nat" where
  "list_index [] x = Inl ValueError"
| "list_index (y # ys) x =
     (if y = x then Inr 0 else map_sum id Suc (list_index ys x))"

text \<open>\<^verbatim>\<open>xs.remove(x)\<close>: deletes the first element equal to \<open>x\<close>.\<close>

fun list_remove :: "'a list \<Rightarrow> 'a \<Rightarrow> error + 'a list" where
  "list_remove [] x = Inl ValueError"
| "list_remove (y # ys) x =
     (if y = x then Inr ys else map_sum id ((#) y) (list_remove ys x))"

section \<open>The lookbehind rewriter\<close>

text \<open>
  The loop of \<^verbatim>\<open>pattern_to_fixed_width_lookbehinds\<close> over the sorted alternatives,
  with its three variables. The last bucket is appended when
  \<^verbatim>\<open>pattern.index(item) == len(pattern) - 1\<close>.
\<close>

record lookbehind_state =
  current_len :: nat
  all_lookbehinds :: "pystr list list"
  current_list :: "pystr list"

fun lookbehind_loop ::
  "pystr list \<Rightarrow> pystr list \<Rightarrow> lookbehind_state \<Rightarrow> error + lookbehind_state" where
  "lookbehind_loop pattern [] s = Inr s"
| "lookbehind_loop pattern (item # rest) s =
     (let s1 = (if length item = current_len s
                then s\<lparr>current_list := current_list s @ [item]\<rparr>
                else \<lparr>current_len = length item,
                      all_lookbehinds = all_lookbehinds s @ [current_list s],
                      current_list = [item]\<rparr>)
      in case list_index pattern item of
           Inl e \<Rightarrow> Inl e
         | Inr i \<Rightarrow>
             lookbehind_loop pattern rest
               (if int i = int (length pattern) - 1
                then s1\<lparr>all_lookbehinds := all_lookbehinds s1 @ [current_list s1]\<rparr>
                else s1))"

definition pattern_to_fixed_width_lookbehinds :: "pystr \<Rightarrow> error + pystr" where
  "pattern_to_fixed_width_lookbehinds m =
     (let pattern = sorted_reverse length (split_on (of_char CHR ''|'') m)
      in case pattern of
           [] \<Rightarrow> Inl IndexError
         | p0 # _ \<Rightarrow>
             (case lookbehind_loop pattern pattern
                     \<lparr>current_len = length p0, all_lookbehinds = [], current_list = []\<rparr> of
                Inl e \<Rightarrow> Inl e
              | Inr s \<Rightarrow>
                  Inr (py ''('' @
                       join (py ''|'')
                         (map (\<lambda>items. py ''(?<='' @ join (py ''|'') items @ py '')'')
                            (all_lookbehinds s)) @
                       py '')'')))"

text \<open>
  \<^verbatim>\<open>create_fixed_width_lookbehind\<close>: \<^verbatim>\<open>re.sub\<close> replaces every match of
  \<^verbatim>\<open>(?<=\(?)[\p{L}\p{M}|]+(?=\)?)\<close>, from left to right. Both assertions hold
  everywhere (their parenthesis is optional) and the repetition is greedy, so the
  matches are the maximal runs of characters of the class. Which code points are
  letters or marks is the regex engine's table, a parameter here.
\<close>

function create_fixed_width_lookbehind :: "(nat \<Rightarrow> bool) \<Rightarrow> pystr \<Rightarrow> error + pystr" where
  "create_fixed_width_lookbehind letter_or_mark [] = Inr []"
| "create_fixed_width_lookbehind letter_or_mark (c # cs) =
     (let in_class = (\<lambda>x. letter_or_mark x \<or> x = of_char CHR ''|'')
      in if in_class c
         then (case pattern_to_fixed_width_lookbehinds (c # takeWhile in_class cs) of
                 Inl e \<Rightarrow> Inl e
               | Inr r \<Rightarrow>
                   map_sum id ((@) r)
                     (create_fixed_width_lookbehind letter_or_mark (dropWhile in_class cs)))
         else map_sum id ((#) c) (create_fixed_width_lookbehind letter_or_mark cs))"
  by pat_completeness auto
termination
  by (relation "measure (\<lambda>(l, s). length s)")
     (auto simp: less_Suc_eq_le length_dropWhile_le)

section \<open>The host libraries\<close>

text \<open>
  What the code takes from the regex engines, from the Unicode tables and from
  \<^verbatim>\<open>normalize\<close>, which \<^verbatim>\<open>g2p.mappings.utils\<close> is imported for but does not define in
  this repository. They are parameters of the model.
\<close>

record lib =
  lib_letter_or_mark :: "nat \<Rightarrow> bool"
    \<comment> \<open>the classes \<^verbatim>\<open>\p{L}\<close> and \<^verbatim>\<open>\p{M}\<close>\<close>
  lib_digit :: "nat \<Rightarrow> bool"
    \<comment> \<open>the class \<^verbatim>\<open>\d\<close>; the closing brace is no digit\<close>
  lib_re_valid :: "pystr \<Rightarrow> bool"
    \<comment> \<open>whether \<^verbatim>\<open>re.compile\<close> accepts the pattern text\<close>
  lib_re_search :: "pystr \<Rightarrow> pystr \<Rightarrow> bool"
    \<comment> \<open>\<^verbatim>\<open>re.search(pattern, string)\<close> finds a match\<close>
  lib_re_sub :: "pystr \<Rightarrow> pystr \<Rightarrow> pystr \<Rightarrow> error + pystr"
    \<comment> \<open>\<^verbatim>\<open>re.sub(pattern, repl, string)\<close>\<close>
  lib_re_escape :: "pystr \<Rightarrow> pystr"
  lib_lower :: "pystr \<Rightarrow> pystr"
  lib_normalize :: "pystr \<Rightarrow> kwval \<Rightarrow> error + pystr"
    \<comment> \<open>\<^verbatim>\<open>normalize(text, norm_form)\<close>\<close>
  lib_csv_rejects_nul :: bool
    \<comment> \<open>whether \<^verbatim>\<open>csv.reader\<close> raises on a NUL character, as it does before Python 3.11\<close>
  lib_json_dumps :: "pystr dict list \<Rightarrow> pystr"
    \<comment> \<open>the text \<^verbatim>\<open>json.dump(obj, f, indent=4)\<close> writes, which is ASCII\<close>

text \<open>Sequencing of computations that may raise.\<close>

definition bind_result :: "error + 'a \<Rightarrow> ('a \<Rightarrow> error + 'b) \<Rightarrow> error + 'b" where
  "bind_result m f = (case m of Inl e \<Rightarrow> Inl e | Inr x \<Rightarrow> f x)"

fun traverse :: "('a \<Rightarrow> error + 'b) \<Rightarrow> 'a list \<Rightarrow> error + 'b list" where
  "traverse f [] = Inr []"
| "traverse f (x # xs) =
     bind_result (f x) (\<lambda>y. bind_result (traverse f xs) (\<lambda>ys. Inr (y # ys)))"

section \<open>Compiling a rule\<close>

text \<open>
  \<^verbatim>\<open>re.sub(re.compile(r'{\d+}'), "", rule['in'])\<close>: an opening brace, the longest run
  of digits after it, which must not be empty, and a closing brace are deleted.
\<close>

function strip_placeholders :: "(nat \<Rightarrow> bool) \<Rightarrow> pystr \<Rightarrow> pystr" where
  "strip_placeholders digit [] = []"
| "strip_placeholders digit (c # cs) =
     (if c = of_char CHR ''{'' \<and> takeWhile digit cs \<noteq> [] \<and>
         (case dropWhile digit cs of [] \<Rightarrow> False | d # _ \<Rightarrow> d = of_char CHR ''}'')
      then strip_placeholders digit (tl (dropWhile digit cs))
      else c # strip_placeholders digit cs)"
  by pat_completeness auto
termination
proof (relation "measure (\<lambda>(d, s). length s)")
  fix digit :: "nat \<Rightarrow> bool" and c :: nat and cs :: pystr
  have "length (tl (dropWhile digit cs)) \<le> length cs"
    using length_dropWhile_le [of digit cs] by simp
  then show "((digit, tl (dropWhile digit cs)), digit, c # cs) \<in> measure (\<lambda>(d, s). length s)"
    by simp
qed simp_all

text \<open>The warnings \<^verbatim>\<open>rule_to_regex\<close> logs: the rule's input and output.\<close>

datatype log_record = Warning pystr pystr

text \<open>
  \<^verbatim>\<open>rule_to_regex\<close>. A rule with a falsy \<^verbatim>\<open>in\<close> logs a warning and returns \<^verbatim>\<open>False\<close>.
  Otherwise the pattern text is built and compiled inside \<^verbatim>\<open>try\<close>; the bare
  \<^verbatim>\<open>except\<close> formats a message from \<^verbatim>\<open>self.kwargs["in_lang"]\<close>,
  \<^verbatim>\<open>self.kwargs["out_lang"]\<close> and \<^verbatim>\<open>inp\<close> before it raises \<^verbatim>\<open>Exception\<close>, so a missing
  key or an unassigned \<^verbatim>\<open>inp\<close> raises there first.
\<close>

definition rule_to_regex_except :: "kwval dict \<Rightarrow> bool \<Rightarrow> error" where
  "rule_to_regex_except kw inp_assigned =
     (if map_of kw ''in_lang'' = None \<or> map_of kw ''out_lang'' = None then KeyError
      else if \<not> inp_assigned then UnboundLocalError
      else Exception)"

definition rule_to_regex :: "lib \<Rightarrow> kwval dict \<Rightarrow> rule \<Rightarrow> log_record list \<times> (error + pattern)" where
  "rule_to_regex l kw rule =
     (if rule_in rule = [] then ([Warning (rule_in rule) (rule_out rule)], Inr PFalse)
      else
        let before_text = context_before rule;
            after_text = context_after rule;
            input_match = strip_placeholders (lib_digit l) (rule_in rule)
        in ([],
            case create_fixed_width_lookbehind (lib_letter_or_mark l) before_text of
              Inl e \<Rightarrow> Inl (rule_to_regex_except kw False)
            | Inr lookbehind \<Rightarrow>
                (let inp = lookbehind @ input_match @
                           (if after_text \<noteq> [] then py ''(?='' @ after_text @ py '')'' else [])
                 in case map_of kw ''case_sensitive'' of
                      None \<Rightarrow> Inl (rule_to_regex_except kw True)
                    | Some case_sensitive \<Rightarrow>
                        if lib_re_valid l inp
                        then Inr (Pattern inp (\<not> truthy case_sensitive))
                        else Inl (rule_to_regex_except kw True))))"

section \<open>The configuration-flag pipeline\<close>

text \<open>\<^verbatim>\<open>_string_to_pua\<close>: \<^verbatim>\<open>chr\<close> raises \<^verbatim>\<open>ValueError\<close> beyond code point 0x10FFFF.\<close>

definition chr :: "nat \<Rightarrow> error + nat" where
  "chr n = (if n \<le> 1114111 then Inr n else Inl ValueError)"

definition string_to_pua :: "pystr \<Rightarrow> nat \<Rightarrow> error + pystr" where
  "string_to_pua string offset =
     bind_result (chr (983040 + offset))
       (\<lambda>intermediate_char. Inr (replicate (length string) intermediate_char))"

text \<open>
  The loop of the flag \<^verbatim>\<open>prevent_feeding\<close>. A \<^verbatim>\<open>for\<close> loop over a list reads the
  element at its position counter as long as the counter is below the current length.
\<close>

function prevent_feeding_loop :: "nat \<Rightarrow> rule list \<Rightarrow> error + rule list" where
  "prevent_feeding_loop i mapping =
     (if i < length mapping
      then (let io = mapping ! i
            in bind_result (list_index mapping io) (\<lambda>offset.
               bind_result (string_to_pua (rule_out io) offset) (\<lambda>form.
               prevent_feeding_loop (Suc i) (mapping[i := io\<lparr>intermediate_form := Some form\<rparr>]))))
      else Inr mapping)"
  by pat_completeness auto
termination
  by (relation "measure (\<lambda>(i, mapping). length mapping - i)") auto

text \<open>\<^verbatim>\<open>reverse_mappings\<close> and \<^verbatim>\<open>lower_mappings\<close>.\<close>

definition reverse_mappings :: "rule list \<Rightarrow> rule list" where
  "reverse_mappings mapping =
     map (\<lambda>io. io\<lparr>rule_in := rule_out io, rule_out := rule_in io\<rparr>) mapping"

definition lower_mappings :: "lib \<Rightarrow> rule list \<Rightarrow> rule list" where
  "lower_mappings l mapping =
     map (\<lambda>io. io\<lparr>rule_in := lib_lower l (rule_in io), rule_out := lib_lower l (rule_out io),
                   context_before := lib_lower l (context_before io),
                   context_after := lib_lower l (context_after io)\<rparr>) mapping"

text \<open>
  \<^verbatim>\<open>escape_special_characters\<close> escapes the value of every key; \<^verbatim>\<open>re.escape\<close> raises
  \<^verbatim>\<open>TypeError\<close> on a value that is no string, as a \<^verbatim>\<open>match_pattern\<close> is.
\<close>

definition escape_special_characters :: "lib \<Rightarrow> rule \<Rightarrow> error + rule" where
  "escape_special_characters l to_escape =
     (if match_pattern to_escape \<noteq> None then Inl TypeError
      else Inr (to_escape\<lparr>rule_in := lib_re_escape l (rule_in to_escape),
                         rule_out := lib_re_escape l (rule_out to_escape),
                         context_before := lib_re_escape l (context_before to_escape),
                         context_after := lib_re_escape l (context_after to_escape),
                         intermediate_form := map_option (lib_re_escape l) (intermediate_form to_escape)\<rparr>))"

text \<open>The flag \<^verbatim>\<open>norm_form\<close>: every string value of a rule is normalized.\<close>

definition normalize_rule :: "lib \<Rightarrow> kwval \<Rightarrow> rule \<Rightarrow> error + rule" where
  "normalize_rule l norm_form io =
     bind_result (lib_normalize l (rule_in io) norm_form) (\<lambda>i.
     bind_result (lib_normalize l (rule_out io) norm_form) (\<lambda>out.
     bind_result (lib_normalize l (context_before io) norm_form) (\<lambda>before_text.
     bind_result (lib_normalize l (context_after io) norm_form) (\<lambda>after_text.
     bind_result (case intermediate_form io of
                    None \<Rightarrow> Inr None
                  | Some v \<Rightarrow> map_sum id Some (lib_normalize l v norm_form)) (\<lambda>form.
     Inr (io\<lparr>rule_in := i, rule_out := out, context_before := before_text,
              context_after := after_text, intermediate_form := form\<rparr>))))))"

text \<open>One round of the loop over \<^verbatim>\<open>self.kwargs.items()\<close> in \<^verbatim>\<open>process_kwargs\<close>.\<close>

definition process_kwarg :: "lib \<Rightarrow> string \<times> kwval \<Rightarrow> rule list \<Rightarrow> error + rule list" where
  "process_kwarg l item mapping =
     (case item of (kwarg, val) \<Rightarrow>
        if kwarg = ''as_is'' \<and> \<not> truthy val
          then Inr (sorted_reverse (\<lambda>x. length (rule_in x)) mapping)
        else if kwarg = ''escape_special'' \<and> truthy val
          then traverse (escape_special_characters l) mapping
        else if kwarg = ''case_sensitive'' \<and> \<not> truthy val
          then Inr (lower_mappings l mapping)
        else if kwarg = ''norm_form'' \<and> truthy val
          then traverse (normalize_rule l val) mapping
        else if kwarg = ''reverse'' \<and> truthy val
          then Inr (reverse_mappings mapping)
        else if kwarg = ''prevent_feeding'' \<and> truthy val
          then prevent_feeding_loop 0 mapping
        else Inr mapping)"


text \<open>
  The last loop of \<^verbatim>\<open>process_kwargs\<close>: every rule the loop reaches gets its
  \<^verbatim>\<open>match_pattern\<close>, and a rule whose \<^verbatim>\<open>match_pattern\<close> is \<^verbatim>\<open>False\<close> is removed from the
  list the loop is running over. A compiled pattern is truthy.
\<close>

lemma list_remove_length:
  "list_remove xs x = Inr ys \<Longrightarrow> Suc (length ys) = length xs"
  by (induction xs arbitrary: ys) (auto split: if_splits sum.splits simp: map_sum_def)

function compile_loop ::
  "lib \<Rightarrow> kwval dict \<Rightarrow> nat \<Rightarrow> rule list \<Rightarrow> log_record list \<Rightarrow> log_record list \<times> (error + rule list)" where
  "compile_loop l kw i mapping log =
     (if i < length mapping
      then (case rule_to_regex l kw (mapping ! i) of
              (lg, Inl e) \<Rightarrow> (log @ lg, Inl e)
            | (lg, Inr p) \<Rightarrow>
                (let io = (mapping ! i)\<lparr>match_pattern := Some p\<rparr>;
                     mapping1 = mapping[i := io]
                 in if p = PFalse
                    then (case list_remove mapping1 io of
                            Inl e \<Rightarrow> (log @ lg, Inl e)
                          | Inr mapping2 \<Rightarrow> compile_loop l kw (Suc i) mapping2 (log @ lg))
                    else compile_loop l kw (Suc i) mapping1 (log @ lg)))
      else (log, Inr mapping))"
  by pat_completeness auto
termination
proof (relation "measure (\<lambda>(l, kw, i, mapping, log). length mapping - i)")
  fix l :: lib and kw :: "kwval dict" and i :: nat and mapping :: "rule list"
    and x2 :: "error + pattern" and p io mapping1 mapping2
  assume "i < length mapping" "mapping1 = mapping[i := io]"
    "list_remove mapping1 io = Inr mapping2"
  then have "Suc (length mapping2) = length mapping"
    using list_remove_length [of mapping1 io mapping2] by simp
  then show "((l, kw, Suc i, mapping2, x), l, kw, i, mapping, y)
      \<in> measure (\<lambda>(l, kw, i, mapping, log). length mapping - i)" for x y
    using \<open>i < length mapping\<close> by simp
qed auto




section \<open>Files\<close>

text \<open>
  Text files hold code points; a file that does not exist is \<open>None\<close>. The model is of a
  POSIX system: writing in text mode leaves line ends as they are, and reading with the
  default \<^verbatim>\<open>newline=None\<close> turns \<^verbatim>\<open>\r\n\<close> and \<^verbatim>\<open>\r\<close> into \<^verbatim>\<open>\n\<close>. Iterating over an
  open file yields its lines, each with its line end.
\<close>

record fs =
  fs_files :: "pystr \<rightharpoonup> pystr"
  fs_isdir :: "pystr \<Rightarrow> bool"




text \<open>
  Writing a string to a file opened with \<^verbatim>\<open>encoding='utf8'\<close> appends it, and raises on
  a code point that UTF-8 cannot encode (a surrogate).
\<close>

definition utf8_encodable :: "nat \<Rightarrow> bool" where
  "utf8_encodable c = (c < 55296 \<or> (57343 < c \<and> c \<le> 1114111))"

definition file_write :: "fs \<Rightarrow> pystr \<Rightarrow> pystr \<Rightarrow> error + fs" where
  "file_write files path text =
     (if list_all utf8_encodable text
      then Inr (files\<lparr>fs_files := (fs_files files)(path \<mapsto>
                  (case fs_files files path of None \<Rightarrow> [] | Some old \<Rightarrow> old) @ text)\<rparr>)
      else Inl UnicodeEncodeError)"

text \<open>\<^verbatim>\<open>open(fn, 'w')\<close> creates the file, or empties it.\<close>

definition open_write :: "fs \<Rightarrow> pystr \<Rightarrow> fs" where
  "open_write files path = files\<lparr>fs_files := (fs_files files)(path \<mapsto> [])\<rparr>"

text \<open>\<^verbatim>\<open>os.path.join\<close> of two components, and \<^verbatim>\<open>str.endswith\<close>.\<close>

definition path_join :: "pystr \<Rightarrow> pystr \<Rightarrow> pystr" where
  "path_join a b =
     (if b \<noteq> [] \<and> hd b = of_char CHR ''/'' then b
      else if a = [] \<or> last a = of_char CHR ''/'' then a @ b
      else a @ py ''/'' @ b)"


section \<open>The csv module\<close>

text \<open>
  \<^verbatim>\<open>csv.writer\<close> in its default dialect: a field is quoted when it contains the
  delimiter, the quote character or a character of the line terminator; a quote inside
  is doubled; a row that is one empty field is written as two quotes; the line
  terminator is \<^verbatim>\<open>\r\n\<close>.
\<close>

definition needs_quote :: "pystr \<Rightarrow> bool" where
  "needs_quote f = (\<exists>c \<in> set f. c = 44 \<or> c = 34 \<or> c = 13 \<or> c = 10)"

definition quote_field :: "pystr \<Rightarrow> pystr" where
  "quote_field f =
     (if needs_quote f
      then 34 # concat (map (\<lambda>c. if c = 34 then [34, 34] else [c]) f) @ [34]
      else f)"

definition writerow :: "pystr list \<Rightarrow> pystr" where
  "writerow row =
     (if row = [[]] then [34, 34] else join [44] (map quote_field row)) @ [13, 10]"












section \<open>Loading a rule table from delimited text\<close>

text \<open>
  The body of the loop of \<^verbatim>\<open>load_from_csv\<close> for one row \<^verbatim>\<open>entry\<close> of the reader:
  \<^verbatim>\<open>entry[0]\<close> and \<^verbatim>\<open>entry[1]\<close> are read unguarded, \<^verbatim>\<open>entry[2]\<close> and \<^verbatim>\<open>entry[3]\<close>
  under \<^verbatim>\<open>try/except IndexError\<close>. The reader yields strings only, so the conversion
  of numbers to strings never applies.
\<close>

definition load_entry :: "pystr list \<Rightarrow> error + rule" where
  "load_entry entry =
     (case py_index entry 0 of
        Inl e \<Rightarrow> Inl e
      | Inr i \<Rightarrow>
          (case py_index entry 1 of
             Inl e \<Rightarrow> Inl e
           | Inr out \<Rightarrow>
               Inr \<lparr>rule_in = i, rule_out = out,
                    context_before = (case py_index entry 2 of Inl e \<Rightarrow> [] | Inr v \<Rightarrow> v),
                    context_after = (case py_index entry 3 of Inl e \<Rightarrow> [] | Inr v \<Rightarrow> v),
                    intermediate_form = None, match_pattern = None\<rparr>))"

text \<open>The loop over the rows: the first exception ends it.\<close>

fun load_entries :: "pystr list list \<Rightarrow> error + rule list" where
  "load_entries [] = Inr []"
| "load_entries (entry # work_sheet) =
     (case load_entry entry of
        Inl e \<Rightarrow> Inl e
      | Inr new_io \<Rightarrow> map_sum id ((#) new_io) (load_entries work_sheet))"


section \<open>Abbreviations\<close>












section \<open>Constructing a Mapping\<close>













section \<open>Exporting the rule table\<close>

text \<open>The rule with the keys of \<^verbatim>\<open>fieldnames\<close> only, and the row \<^verbatim>\<open>DictWriter\<close> makes of it.\<close>

definition fieldnames :: "string list" where
  "fieldnames = [''in'', ''out'', ''context_before'', ''context_after'']"

definition filtered :: "rule \<Rightarrow> pystr dict" where
  "filtered io =
     [(''in'', rule_in io), (''out'', rule_out io),
      (''context_before'', context_before io), (''context_after'', context_after io)]"

definition dict_to_list :: "pystr dict \<Rightarrow> pystr list" where
  "dict_to_list rowdict = map (\<lambda>k. dict_get rowdict k []) fieldnames"

fun write_rows :: "fs \<Rightarrow> pystr \<Rightarrow> pystr dict list \<Rightarrow> fs \<times> (error + unit)" where
  "write_rows files fn [] = (files, Inr ())"
| "write_rows files fn (io # rest) =
     (case file_write files fn (writerow (dict_to_list io)) of
        Inl e \<Rightarrow> (files, Inl e)
      | Inr files' \<Rightarrow> write_rows files' fn rest)"

text \<open>Concatenating a configuration value with a string raises unless it is a string.\<close>

definition as_str :: "kwval \<Rightarrow> error + pystr" where
  "as_str v = (case v of VStr s \<Rightarrow> Inr s | _ \<Rightarrow> Inl TypeError)"

text \<open>
  \<^verbatim>\<open>mapping_to_file\<close>: the file system afterwards, and the exception if one was raised.
  Its last branch raises the bare class \<^verbatim>\<open>exceptions.IncorrectFileType\<close>, which constructs
  the exception with no argument.
\<close>

definition mapping_to_file ::
  "lib \<Rightarrow> mapping_obj \<Rightarrow> fs \<Rightarrow> pystr \<Rightarrow> pystr \<Rightarrow> fs \<times> (error + unit)" where
  "mapping_to_file l self files output_path file_type =
     (if \<not> fs_isdir files output_path then (files, Inl Exception)
      else
        case bind_result (as_str (dict_get (self_kwargs self) ''in_lang'' (VStr (py ''und'')))) (\<lambda>i.
             bind_result (as_str (dict_get (self_kwargs self) ''out_lang'' (VStr (py ''und'')))) (\<lambda>out.
             Inr (path_join output_path (i @ py ''_to_'' @ out @ py ''.'' @ file_type)))) of
          Inl e \<Rightarrow> (files, Inl e)
        | Inr fn \<Rightarrow>
            (let rows = map filtered (self_mapping self)
             in if file_type = py ''json''
                then (case file_write (open_write files fn) fn (lib_json_dumps l rows) of
                        Inl e \<Rightarrow> (open_write files fn, Inl e)
                      | Inr files' \<Rightarrow> (files', Inr ()))
                else if file_type = py ''csv''
                then write_rows (open_write files fn) fn rows
                else (files, Inl (IncorrectFileType_init None))))"



section \<open>An instance of the host libraries\<close>

text \<open>
  A small instance of the host libraries, on which examples are evaluated: ASCII
  letters and digits, a regex engine that accepts every pattern and finds no match, and
  text transformations that change nothing.
\<close>

definition ascii_lib :: lib where
  "ascii_lib =
     \<lparr>lib_letter_or_mark = (\<lambda>c. (65 \<le> c \<and> c \<le> 90) \<or> (97 \<le> c \<and> c \<le> 122)),
      lib_digit = (\<lambda>c. 48 \<le> c \<and> c \<le> 57),
      lib_re_valid = (\<lambda>p. True),
      lib_re_search = (\<lambda>p s. False),
      lib_re_sub = (\<lambda>p r s. Inr s),
      lib_re_escape = (\<lambda>s. s),
      lib_lower = (\<lambda>s. s),
      lib_normalize = (\<lambda>s f. Inr s),
      lib_csv_rejects_nul = False,
      lib_json_dumps = (\<lambda>rows. py ''[]'')\<rparr>"

text \<open>A file system with no file and the one directory \<^verbatim>\<open>out\<close>, and an empty store.\<close>

definition empty_fs :: fs where
  "empty_fs = \<lparr>fs_files = (\<lambda>p. None), fs_isdir = (\<lambda>p. p = py ''out'')\<rparr>"



section \<open>Properties of the registry lookup\<close>

lemma find_mapping_by_id_loop_no_match:
  "\<forall>m \<in> set ms. dict_get (config_items m) ''id'' (VStr []) \<noteq> map_id \<Longrightarrow>
   find_mapping_by_id_loop st ms map_id = (st, None)"
  by (induction ms) simp_all

lemma find_mapping_loop_no_match:
  "\<forall>m \<in> set ms. \<not> (dict_get (config_items m) ''in_lang'' (VStr []) = in_lang \<and>
                     dict_get (config_items m) ''out_lang'' (VStr []) = out_lang) \<Longrightarrow>
   find_mapping_loop st ms in_lang out_lang = (st, Inl (MappingMissing in_lang out_lang))"
  by (induction ms) (auto simp: Let_def)

text \<open>
  Claim C7. When no catalog entry has the requested id, \<^verbatim>\<open>find_mapping_by_id\<close> returns
  \<^verbatim>\<open>None\<close> (and leaves the store as it was) instead of raising; when no catalog entry
  has the requested language pair, \<^verbatim>\<open>find_mapping\<close> raises \<^verbatim>\<open>MappingMissing\<close> for that
  pair. The two lookups fail differently.
\<close>

theorem lookup_failure_asymmetric:
  "((\<forall>m \<in> set (catalog st). dict_get (config_items m) ''id'' (VStr []) \<noteq> map_id) \<longrightarrow>
      find_mapping_by_id st map_id = (st, None)) \<and>
   ((\<forall>m \<in> set (catalog st). \<not> (dict_get (config_items m) ''in_lang'' (VStr []) = in_lang \<and>
                                 dict_get (config_items m) ''out_lang'' (VStr []) = out_lang)) \<longrightarrow>
      find_mapping st in_lang out_lang = (st, Inl (MappingMissing in_lang out_lang)))"
  by (simp add: find_mapping_by_id_def find_mapping_def
        find_mapping_by_id_loop_no_match find_mapping_loop_no_match)

theorem lookup_failure_asymmetric_witness:
  "find_mapping_by_id
     \<lparr>catalog = [\<lparr>config_items = [(''in_lang'', VStr (py ''hun'')), (''out_lang'', VStr (py ''ipa'')),
                            (''id'', VStr (py ''hun2ipa''))],
                   mapping_data = Some [], abbreviations_data = None\<rparr>],
      allocated = []\<rparr> (VStr (py ''fra2ipa'')) =
     (\<lparr>catalog = [\<lparr>config_items = [(''in_lang'', VStr (py ''hun'')), (''out_lang'', VStr (py ''ipa'')),
                             (''id'', VStr (py ''hun2ipa''))],
                    mapping_data = Some [], abbreviations_data = None\<rparr>],
       allocated = []\<rparr>, None) \<and>
   find_mapping
     \<lparr>catalog = [\<lparr>config_items = [(''in_lang'', VStr (py ''hun'')), (''out_lang'', VStr (py ''ipa'')),
                            (''id'', VStr (py ''hun2ipa''))],
                   mapping_data = Some [], abbreviations_data = None\<rparr>],
      allocated = []\<rparr> (VStr (py ''fra'')) (VStr (py ''ipa'')) =
     (\<lparr>catalog = [\<lparr>config_items = [(''in_lang'', VStr (py ''hun'')), (''out_lang'', VStr (py ''ipa'')),
                             (''id'', VStr (py ''hun2ipa''))],
                    mapping_data = Some [], abbreviations_data = None\<rparr>],
       allocated = []\<rparr>, Inl (MappingMissing (VStr (py ''fra'')) (VStr (py ''ipa''))))"
  using lookup_failure_asymmetric
    [of "\<lparr>catalog = [\<lparr>config_items = [(''in_lang'', VStr (py ''hun'')), (''out_lang'', VStr (py ''ipa'')),
                                  (''id'', VStr (py ''hun2ipa''))],
                         mapping_data = Some [], abbreviations_data = None\<rparr>],
            allocated = []\<rparr>"
        "VStr (py ''fra2ipa'')" "VStr (py ''fra'')" "VStr (py ''ipa'')"]
  by (simp add: dict_get_def py_def)

section \<open>Properties of indexed read access\<close>



section \<open>Properties of the delimited-text loader\<close>

lemma load_entry_two_columns:
  "2 \<le> length entry \<Longrightarrow>
   load_entry entry =
     Inr \<lparr>rule_in = entry ! 0, rule_out = entry ! 1,
          context_before = (if 2 < length entry then entry ! 2 else []),
          context_after = (if 3 < length entry then entry ! 3 else []),
          intermediate_form = None, match_pattern = None\<rparr>"
  by (auto simp: load_entry_def py_index_def)

lemma load_entry_short:
  "length entry < 2 \<Longrightarrow> load_entry entry = Inl IndexError"
  by (cases entry) (auto simp: load_entry_def py_index_def)

lemma load_entries_short:
  "\<exists>entry \<in> set work_sheet. length entry < 2 \<Longrightarrow> load_entries work_sheet = Inl IndexError"
proof (induction work_sheet)
  case Nil
  then show ?case by simp
next
  case (Cons entry work_sheet)
  show ?case
  proof (cases "length entry < 2")
    case True
    then show ?thesis by (simp add: load_entry_short)
  next
    case False
    with Cons.prems have "\<exists>e \<in> set work_sheet. length e < 2" by auto
    with Cons.IH have "load_entries work_sheet = Inl IndexError" by blast
    moreover from False have "2 \<le> length entry" by simp
    ultimately show ?thesis by (simp add: load_entry_two_columns)
  qed
qed

text \<open>
  Claim C3, amended. When every row has at least two columns, the loader maps columns
  0 to 3 by position to \<^verbatim>\<open>in\<close>, \<^verbatim>\<open>out\<close>, \<^verbatim>\<open>context_before\<close>, \<^verbatim>\<open>context_after\<close>, a
  missing third or fourth column is the empty string, and further columns are ignored.
  A row with fewer than two columns makes the whole load fail with \<^verbatim>\<open>IndexError\<close>.
\<close>

theorem load_entries_positional:
  "((\<forall>entry \<in> set work_sheet. 2 \<le> length entry) \<longrightarrow>
      load_entries work_sheet =
        Inr (map (\<lambda>entry. \<lparr>rule_in = entry ! 0, rule_out = entry ! 1,
                    context_before = (if 2 < length entry then entry ! 2 else []),
                    context_after = (if 3 < length entry then entry ! 3 else []),
                    intermediate_form = None, match_pattern = None\<rparr>) work_sheet)) \<and>
   ((\<exists>entry \<in> set work_sheet. length entry < 2) \<longrightarrow> load_entries work_sheet = Inl IndexError)"
proof (intro conjI impI)
  assume "\<forall>entry \<in> set work_sheet. 2 \<le> length entry"
  then show "load_entries work_sheet =
        Inr (map (\<lambda>entry. \<lparr>rule_in = entry ! 0, rule_out = entry ! 1,
                    context_before = (if 2 < length entry then entry ! 2 else []),
                    context_after = (if 3 < length entry then entry ! 3 else []),
                    intermediate_form = None, match_pattern = None\<rparr>) work_sheet)"
    by (induction work_sheet) (simp_all add: load_entry_two_columns)
next
  assume "\<exists>entry \<in> set work_sheet. length entry < 2"
  then show "load_entries work_sheet = Inl IndexError" by (rule load_entries_short)
qed

theorem load_entries_positional_witness:
  "load_entries [[py ''a'', py ''b''], [py ''c'', py ''d'', py ''e'', py ''f'', py ''g'']] =
     Inr [\<lparr>rule_in = py ''a'', rule_out = py ''b'', context_before = [], context_after = [],
           intermediate_form = None, match_pattern = None\<rparr>,
          \<lparr>rule_in = py ''c'', rule_out = py ''d'', context_before = py ''e'',
           context_after = py ''f'', intermediate_form = None, match_pattern = None\<rparr>] \<and>
   load_entries [[py ''a'', py ''b''], []] = Inl IndexError"
  using load_entries_positional [of "[[py ''a'', py ''b''], [py ''c'', py ''d'', py ''e'', py ''f'', py ''g'']]"]
    load_entries_positional [of "[[py ''a'', py ''b''], []]"]
  by simp

text \<open>
  Claim C3 as stated fails: a row with one column has fewer than four columns, and the
  loader does not default its missing \<^verbatim>\<open>out\<close> column; \<^verbatim>\<open>entry[1]\<close> raises.
\<close>

theorem load_entries_one_column_counterexample:
  "load_entries [[py ''a'']] = Inl IndexError"
  by (simp add: load_entry_def py_index_def)

section \<open>Properties of the lookbehind rewriter\<close>

text \<open>
  Claim C4. The rewriter is to render every bucket of equal-length alternatives. When
  the last alternative after sorting also occurs earlier, \<^verbatim>\<open>pattern.index(item)\<close> never
  reaches the last position and the last bucket is never appended: for \<^verbatim>\<open>a|a\<close> the
  result is \<^verbatim>\<open>()\<close> and not \<^verbatim>\<open>((?<=a|a))\<close>, for \<^verbatim>\<open>ab|a|a\<close> it is
  \<^verbatim>\<open>((?<=ab))\<close> and not \<^verbatim>\<open>((?<=ab)|(?<=a|a))\<close>. Lower-case ASCII letters stand for
  the letters of the regex engine.
\<close>

theorem lookbehind_duplicate_alternative:
  "pattern_to_fixed_width_lookbehinds (py ''a|a'') = Inr (py ''()'') \<and>
   create_fixed_width_lookbehind (\<lambda>c. 97 \<le> c \<and> c \<le> 122) (py ''ab|a|a'') = Inr (py ''((?<=ab))'')"
  by (simp add: pattern_to_fixed_width_lookbehinds_def sorted_reverse_def py_def)

text \<open>The example of the specification, whose alternatives are distinct, is rendered in full.\<close>

lemma lookbehind_example:
  "create_fixed_width_lookbehind (\<lambda>c. 97 \<le> c \<and> c \<le> 122) (py ''xy|a|b'') =
     Inr (py ''((?<=xy)|(?<=a|b))'')"
  by (simp add: pattern_to_fixed_width_lookbehinds_def sorted_reverse_def py_def)

section \<open>Properties of the flag pipeline\<close>

lemma list_index_first:
  "i < length xs \<Longrightarrow> xs ! i = x \<Longrightarrow> \<forall>j<i. xs ! j \<noteq> x \<Longrightarrow> list_index xs x = Inr i"
proof (induction xs arbitrary: i)
  case Nil
  then show ?case by simp
next
  case (Cons y ys)
  show ?case
  proof (cases i)
    case 0
    with Cons.prems show ?thesis by simp
  next
    case (Suc k)
    with Cons.prems have "y \<noteq> x" by auto
    moreover have "list_index ys x = Inr k"
      using Cons.prems Suc by (intro Cons.IH) auto
    ultimately show ?thesis using Suc by simp
  qed
qed

lemma string_to_pua_in_range:
  "offset < 131072 \<Longrightarrow>
   string_to_pua string offset = Inr (replicate (length string) (983040 + offset))"
  by (simp add: string_to_pua_def chr_def bind_result_def)

lemma prevent_feeding_loop_invariant:
  assumes "i \<le> length m" and "length m \<le> 131072"
    and "\<forall>j<i. intermediate_form (m ! j) \<noteq> None"
    and "\<forall>j. i \<le> j \<and> j < length m \<longrightarrow> intermediate_form (m ! j) = None"
  shows "\<exists>m'. prevent_feeding_loop i m = Inr m' \<and> length m' = length m \<and>
           (\<forall>j<i. m' ! j = m ! j) \<and>
           (\<forall>j. i \<le> j \<and> j < length m \<longrightarrow>
              m' ! j = (m ! j)\<lparr>intermediate_form :=
                          Some (replicate (length (rule_out (m ! j))) (983040 + j))\<rparr>)"
  using assms
proof (induction "length m - i" arbitrary: i m)
  case 0
  then have "\<not> i < length m" by simp
  then have "prevent_feeding_loop i m = Inr m" by simp
  with 0 show ?case by auto
next
  case (Suc n)
  then have lt: "i < length m" by simp
  define io where "io = m ! i"
  define form where "form = replicate (length (rule_out io)) (983040 + i)"
  define m1 where "m1 = m[i := io\<lparr>intermediate_form := Some form\<rparr>]"
  have none: "intermediate_form io = None"
    using Suc.prems(4) lt by (simp add: io_def)
  have "\<forall>j<i. m ! j \<noteq> io"
    using Suc.prems(3) none by metis
  then have idx: "list_index m io = Inr i"
    using lt by (intro list_index_first) (simp_all add: io_def)
  have pua: "string_to_pua (rule_out io) i = Inr form"
    using lt Suc.prems(2) by (simp add: string_to_pua_in_range form_def)
  have step: "prevent_feeding_loop i m = prevent_feeding_loop (Suc i) m1"
    using lt idx pua
    by (subst prevent_feeding_loop.simps) (simp add: bind_result_def io_def [symmetric] m1_def)
  have len1: "length m1 = length m" by (simp add: m1_def)
  have "n = length m1 - Suc i" using Suc.hyps(2) len1 by simp
  moreover have "Suc i \<le> length m1" using lt len1 by simp
  moreover have "length m1 \<le> 131072" using Suc.prems(2) len1 by simp
  moreover have "\<forall>j<Suc i. intermediate_form (m1 ! j) \<noteq> None"
    using Suc.prems(3) lt by (auto simp: m1_def nth_list_update less_Suc_eq)
  moreover have "\<forall>j. Suc i \<le> j \<and> j < length m1 \<longrightarrow> intermediate_form (m1 ! j) = None"
    using Suc.prems(4) by (auto simp: m1_def nth_list_update)
  ultimately obtain m' where m':
    "prevent_feeding_loop (Suc i) m1 = Inr m'" "length m' = length m1"
    "\<forall>j<Suc i. m' ! j = m1 ! j"
    "\<forall>j. Suc i \<le> j \<and> j < length m1 \<longrightarrow>
        m' ! j = (m1 ! j)\<lparr>intermediate_form :=
                    Some (replicate (length (rule_out (m1 ! j))) (983040 + j))\<rparr>"
    using Suc.hyps(1) [of m1 "Suc i"] by blast
  have a: "\<forall>j<i. m' ! j = m ! j"
    using m'(3) by (simp add: m1_def nth_list_update)
  have b: "m' ! j = (m ! j)\<lparr>intermediate_form :=
                        Some (replicate (length (rule_out (m ! j))) (983040 + j))\<rparr>"
    if "i \<le> j" "j < length m" for j
  proof (cases "j = i")
    case True
    then have "m' ! j = m1 ! i" using m'(3) by simp
    then show ?thesis using True lt by (simp add: m1_def io_def form_def)
  next
    case False
    with that have "Suc i \<le> j" "j < length m1" by (simp_all add: len1)
    then show ?thesis using m'(4) False by (simp add: m1_def)
  qed
  show ?case using step m'(1,2) len1 a b by auto
qed

lemma replicate_neq:
  "a \<noteq> b \<Longrightarrow> n \<noteq> 0 \<or> k \<noteq> 0 \<Longrightarrow> replicate n (a::nat) \<noteq> replicate k b"
  by (metis length_replicate replicate_eq_replicate)

text \<open>
  Claim C2, amended. When no rule carries an \<^verbatim>\<open>intermediate_form\<close> yet and the list has
  at most 131072 rules (the code points from 983040 to the last one, 1114111), the loop
  of the flag \<^verbatim>\<open>prevent_feeding\<close> succeeds and gives the rule at every position \<open>i\<close> the
  character 983040 + \<open>i\<close> repeated \<^verbatim>\<open>len(out)\<close> times, changing nothing else. Two rules
  at different positions get different intermediate forms unless the \<^verbatim>\<open>out\<close> of both is
  empty.
\<close>

theorem prevent_feeding_intermediate_forms:
  assumes "\<forall>io \<in> set mapping. intermediate_form io = None" and "length mapping \<le> 131072"
  shows "\<exists>mapping'. prevent_feeding_loop 0 mapping = Inr mapping' \<and>
           length mapping' = length mapping \<and>
           (\<forall>i<length mapping.
              mapping' ! i = (mapping ! i)\<lparr>intermediate_form :=
                 Some (replicate (length (rule_out (mapping ! i))) (983040 + i))\<rparr>) \<and>
           (\<forall>i<length mapping. \<forall>j<length mapping.
              i \<noteq> j \<and> (rule_out (mapping ! i) \<noteq> [] \<or> rule_out (mapping ! j) \<noteq> []) \<longrightarrow>
              intermediate_form (mapping' ! i) \<noteq> intermediate_form (mapping' ! j))"
proof -
  have "\<forall>j. 0 \<le> j \<and> j < length mapping \<longrightarrow> intermediate_form (mapping ! j) = None"
    using assms(1) by simp
  then obtain m' where m':
    "prevent_feeding_loop 0 mapping = Inr m'" "length m' = length mapping"
    "\<forall>j. 0 \<le> j \<and> j < length mapping \<longrightarrow>
        m' ! j = (mapping ! j)\<lparr>intermediate_form :=
                    Some (replicate (length (rule_out (mapping ! j))) (983040 + j))\<rparr>"
    using prevent_feeding_loop_invariant [of 0 mapping] assms(2) by auto
  have "intermediate_form (m' ! i) \<noteq> intermediate_form (m' ! j)"
    if "i < length mapping" "j < length mapping" "i \<noteq> j"
      "rule_out (mapping ! i) \<noteq> [] \<or> rule_out (mapping ! j) \<noteq> []" for i j
  proof -
    have "983040 + i \<noteq> 983040 + j" using that(3) by simp
    moreover have "length (rule_out (mapping ! i)) \<noteq> 0 \<or> length (rule_out (mapping ! j)) \<noteq> 0"
      using that(4) by simp
    ultimately have "replicate (length (rule_out (mapping ! i))) (983040 + i) \<noteq>
        replicate (length (rule_out (mapping ! j))) (983040 + j)"
      by (rule replicate_neq)
    then show ?thesis using that(1,2) m'(3) by simp
  qed
  with m' show ?thesis by auto
qed


theorem prevent_feeding_intermediate_forms_witness:
  "\<exists>mapping'.
     prevent_feeding_loop 0
       [\<lparr>rule_in = py ''a'', rule_out = py ''xy'', context_before = [], context_after = [],
          intermediate_form = None, match_pattern = None\<rparr>,
        \<lparr>rule_in = py ''b'', rule_out = py ''z'', context_before = [], context_after = [],
          intermediate_form = None, match_pattern = None\<rparr>] = Inr mapping' \<and>
     length mapping' = 2 \<and>
     mapping' ! 0 = \<lparr>rule_in = py ''a'', rule_out = py ''xy'', context_before = [],
                     context_after = [], intermediate_form = Some [983040, 983040],
                     match_pattern = None\<rparr> \<and>
     mapping' ! 1 = \<lparr>rule_in = py ''b'', rule_out = py ''z'', context_before = [],
                     context_after = [], intermediate_form = Some [983041],
                     match_pattern = None\<rparr>"
  using prevent_feeding_intermediate_forms
    [of "[\<lparr>rule_in = py ''a'', rule_out = py ''xy'', context_before = [], context_after = [],
            intermediate_form = None, match_pattern = None\<rparr>,
          \<lparr>rule_in = py ''b'', rule_out = py ''z'', context_before = [], context_after = [],
            intermediate_form = None, match_pattern = None\<rparr>]"]
  by (auto simp: py_def numeral_2_eq_2 less_Suc_eq)

text \<open>
  Claim C2 as stated fails in its last part: two different rules whose \<^verbatim>\<open>out\<close> is empty
  both get the empty string as their intermediate form.
\<close>

theorem prevent_feeding_empty_out_counterexample:
  "prevent_feeding_loop 0
     [\<lparr>rule_in = py ''a'', rule_out = [], context_before = [], context_after = [],
        intermediate_form = None, match_pattern = None\<rparr>,
      \<lparr>rule_in = py ''b'', rule_out = [], context_before = [], context_after = [],
        intermediate_form = None, match_pattern = None\<rparr>] =
   Inr [\<lparr>rule_in = py ''a'', rule_out = [], context_before = [], context_after = [],
          intermediate_form = Some [], match_pattern = None\<rparr>,
        \<lparr>rule_in = py ''b'', rule_out = [], context_before = [], context_after = [],
          intermediate_form = Some [], match_pattern = None\<rparr>]"
  by (simp add: py_def string_to_pua_def chr_def bind_result_def)

text \<open>The flag \<^verbatim>\<open>prevent_feeding\<close>, when true, runs this loop from the first rule.\<close>

lemma process_kwarg_prevent_feeding:
  "truthy val \<Longrightarrow>
   process_kwarg l (''prevent_feeding'', val) mapping = prevent_feeding_loop 0 mapping"
  by (simp add: process_kwarg_def)

section \<open>Properties of rule compilation\<close>

text \<open>
  Claim C1. Compilation is to drop every rule with an empty \<^verbatim>\<open>in\<close> and to compile every
  other rule. The loop removes a rule from the list it is iterating over, so the rule
  that follows a dropped one is skipped. After an empty-input rule, a proper rule stays
  in the list without a \<^verbatim>\<open>match_pattern\<close>, and a second empty-input rule stays in the
  list, uncompiled and without a warning. This holds for every regex engine and every
  configuration, since only the empty-input branch of \<^verbatim>\<open>rule_to_regex\<close> runs.
\<close>

theorem compile_loop_skips_after_removal:
  "compile_loop l kw 0
     [\<lparr>rule_in = [], rule_out = py ''c'', context_before = [], context_after = [],
        intermediate_form = None, match_pattern = None\<rparr>,
      \<lparr>rule_in = py ''a'', rule_out = py ''b'', context_before = [], context_after = [],
        intermediate_form = None, match_pattern = None\<rparr>] [] =
     ([Warning [] (py ''c'')],
      Inr [\<lparr>rule_in = py ''a'', rule_out = py ''b'', context_before = [], context_after = [],
             intermediate_form = None, match_pattern = None\<rparr>]) \<and>
   compile_loop l kw 0
     [\<lparr>rule_in = [], rule_out = py ''c'', context_before = [], context_after = [],
        intermediate_form = None, match_pattern = None\<rparr>,
      \<lparr>rule_in = [], rule_out = py ''d'', context_before = [], context_after = [],
        intermediate_form = None, match_pattern = None\<rparr>] [] =
     ([Warning [] (py ''c'')],
      Inr [\<lparr>rule_in = [], rule_out = py ''d'', context_before = [], context_after = [],
             intermediate_form = None, match_pattern = None\<rparr>])"
  by (simp add: rule_to_regex_def py_def)

text \<open>
  The example of the specification, where the empty-input rule is the last one, compiles
  to one rule (here with a regex engine that accepts the pattern \<^verbatim>\<open>a\<close>).
\<close>

lemma compile_loop_example:
  "lib_re_valid l (py ''a'') \<Longrightarrow>
   compile_loop l [(''case_sensitive'', VBool True)] 0
     [\<lparr>rule_in = py ''a'', rule_out = py ''b'', context_before = [], context_after = [],
        intermediate_form = None, match_pattern = None\<rparr>,
      \<lparr>rule_in = [], rule_out = py ''c'', context_before = [], context_after = [],
        intermediate_form = None, match_pattern = None\<rparr>] [] =
     ([Warning [] (py ''c'')],
      Inr [\<lparr>rule_in = py ''a'', rule_out = py ''b'', context_before = [], context_after = [],
             intermediate_form = None, match_pattern = Some (Pattern (py ''a'') False)\<rparr>])"
  by (simp add: rule_to_regex_def py_def)


section \<open>Properties of the export\<close>

text \<open>
  With an existing output directory, string language codes and a file type that is
  neither \<^verbatim>\<open>csv\<close> nor \<^verbatim>\<open>json\<close>, no file is opened: the file system stays as it was. The
  exception that comes out is the \<^verbatim>\<open>TypeError\<close> of constructing \<^verbatim>\<open>IncorrectFileType\<close>
  without its message.
\<close>

lemma mapping_to_file_unsupported_type:
  assumes "fs_isdir files output_path"
    and "file_type \<noteq> py ''csv''" and "file_type \<noteq> py ''json''"
    and "\<exists>s. dict_get (self_kwargs self) ''in_lang'' (VStr (py ''und'')) = VStr s"
    and "\<exists>s. dict_get (self_kwargs self) ''out_lang'' (VStr (py ''und'')) = VStr s"
  shows "mapping_to_file l self files output_path file_type = (files, Inl TypeError)"
  using assms
  by (auto simp: mapping_to_file_def as_str_def bind_result_def IncorrectFileType_init_def)

text \<open>
  Claim C8. Exporting with a file type that is neither \<^verbatim>\<open>csv\<close> nor \<^verbatim>\<open>json\<close> is to fail
  with \<^verbatim>\<open>IncorrectFileType\<close> and to write no file. For the file type \<^verbatim>\<open>xlsx\<close> and the
  existing directory \<^verbatim>\<open>out\<close>, the code writes no file, but the exception is \<^verbatim>\<open>TypeError\<close>:
  \<^verbatim>\<open>mapping_to_file\<close> raises the bare class, whose construction fails for want of the
  message that \<^verbatim>\<open>load_abbreviations_from_file\<close> passes.
\<close>

theorem mapping_to_file_xlsx_raises_TypeError:
  "mapping_to_file ascii_lib
     \<lparr>self_mapping = [\<lparr>rule_in = py ''a'', rule_out = py ''b'', context_before = [],
                        context_after = [], intermediate_form = None,
                        match_pattern = Some (Pattern (py ''a'') False)\<rparr>],
      self_kwargs = [(''in_lang'', VStr (py ''hun''))], self_abbreviations = [],
      self_processed = True\<rparr>
     empty_fs (py ''out'') (py ''xlsx'') = (empty_fs, Inl TypeError)"
  by (simp add: mapping_to_file_def as_str_def bind_result_def IncorrectFileType_init_def
      empty_fs_def py_def dict_get_def)

section \<open>Properties of the construction\<close>





section \<open>The registry is copied, never changed\<close>

















section \<open>The csv round trip\<close>



































end
